theory Spec2Isabelle
  imports Complex_Main
begin

section \<open>The swap form of the waves web application\<close>

text \<open>
  The development follows \<^verbatim>\<open>App.tsx\<close> of the waves web application: the state of
  the swap form, the actions the view dispatches, and the \<^verbatim>\<open>reducer\<close> that
  \<^verbatim>\<open>useReducer\<close> runs on every dispatch. The amount handler of the
  \<^verbatim>\<open>AssetSelector\<close> component and the beta amount calculator come last.
\<close>

subsection \<open>Data\<close>

text \<open>
  \<^verbatim>\<open>export enum Asset { LBTC = "L-BTC", USDT = "USDt" }\<close>
\<close>

datatype Asset = LBTC | USDT

text \<open>\<^verbatim>\<open>export type AssetSide = "Alpha" | "Beta"\<close>\<close>

datatype AssetSide = Alpha | Beta

text \<open>
  A JavaScript \<^verbatim>\<open>number\<close>. The reducer only copies numbers from the action into
  the state, so nothing below depends on their arithmetic; they are taken as reals.
\<close>

type_synonym number = real

text \<open>\<^verbatim>\<open>interface AssetState { type: Asset; amount: string }\<close>\<close>

record AssetState =
  type :: Asset
  amount :: string

text \<open>\<^verbatim>\<open>export interface Rate { ask: number; bid: number }\<close>\<close>

record Rate =
  ask :: number
  bid :: number

text \<open>\<^verbatim>\<open>interface WalletStatus { exists: boolean; loaded: boolean }\<close>\<close>

record WalletStatus =
  exists :: bool
  loaded :: bool

text \<open>\<^verbatim>\<open>export interface Balances { usdt: number; btc: number }\<close>\<close>

record Balances =
  usdt :: number
  btc :: number

text \<open>
  The object \<^verbatim>\<open>{ usdtBalance, btcBalance }\<close> that \<^verbatim>\<open>initialState\<close> and the
  \<^verbatim>\<open>UpdateBalance\<close> case store under \<^verbatim>\<open>wallet.balance\<close>.
\<close>

record WalletBalance =
  usdtBalance :: number
  btcBalance :: number

text \<open>
  \<^verbatim>\<open>interface Wallet { status: WalletStatus }\<close>. The interface has no
  \<^verbatim>\<open>balance\<close>, but \<^verbatim>\<open>initialState\<close> and \<^verbatim>\<open>UpdateBalance\<close> put one
  there: the field is optional.
\<close>

record Wallet =
  balance :: "WalletBalance option"
  status :: WalletStatus

subsection \<open>The store of alpha legs\<close>

text \<open>
  JavaScript objects are held by reference. The \<^verbatim>\<open>UpdateBetaAssetType\<close> case binds
  \<^verbatim>\<open>let alpha = state.alpha\<close> and then assigns \<^verbatim>\<open>alpha.type\<close>, a write through
  a reference that the input state shares. So the \<^verbatim>\<open>AssetState\<close> objects live in
  an explicit store and a state holds the address of its alpha leg. No other object is
  ever written through a reference (the reducer builds a fresh state object with an
  object literal in every case and never assigns to a field of \<^verbatim>\<open>state\<close> or of
  \<^verbatim>\<open>state.wallet\<close>), so states, wallets and their parts are plain values.
\<close>

type_synonym ref = nat

text \<open>
  \<open>cells\<close> gives the object at each address and \<open>fresh\<close> is the next address
  not yet in use; what the cells from \<open>fresh\<close> on hold does not matter.
\<close>

record Store =
  cells :: "ref \<Rightarrow> AssetState"
  fresh :: ref

text \<open>An object literal \<^verbatim>\<open>{ type: ..., amount: ... }\<close> makes a new object.\<close>

definition alloc :: "Store \<Rightarrow> AssetState \<Rightarrow> Store \<times> ref" where
  "alloc \<sigma> obj = (\<sigma>\<lparr>cells := (cells \<sigma>)(fresh \<sigma> := obj), fresh := Suc (fresh \<sigma>)\<rparr>, fresh \<sigma>)"

text \<open>The assignment \<^verbatim>\<open>r.type = t\<close> to the object at address \<open>r\<close>.\<close>

definition assign_type :: "Store \<Rightarrow> ref \<Rightarrow> Asset \<Rightarrow> Store" where
  "assign_type \<sigma> r t = \<sigma>\<lparr>cells := (cells \<sigma>)(r := (cells \<sigma> r)\<lparr>type := t\<rparr>)\<rparr>"

text \<open>
  \<^verbatim>\<open>interface State { alpha: AssetState; beta: Asset; txId: string; wallet: Wallet }\<close>.
  The \<^verbatim>\<open>initialState\<close> object also has a \<^verbatim>\<open>rate\<close>, which the spread
  \<^verbatim>\<open>...state\<close> carries along; it is an optional field here.
\<close>

record State =
  alpha :: ref
  beta :: Asset
  rate :: "Rate option"
  txId :: string
  wallet :: Wallet

text \<open>The reads \<^verbatim>\<open>state.alpha.type\<close> and \<^verbatim>\<open>state.alpha.amount\<close>.\<close>

definition alpha_type :: "Store \<Rightarrow> State \<Rightarrow> Asset" where
  "alpha_type \<sigma> state = type (cells \<sigma> (alpha state))"

definition alpha_amount :: "Store \<Rightarrow> State \<Rightarrow> string" where
  "alpha_amount \<sigma> state = amount (cells \<sigma> (alpha state))"

subsection \<open>Actions\<close>

text \<open>
  The union type \<^verbatim>\<open>Action\<close>, one constructor for each member, with the member's
  \<^verbatim>\<open>value\<close>. TypeScript's types are gone at run time, where \<^verbatim>\<open>action.type\<close> is
  any string and the \<^verbatim>\<open>default\<close> branch of the reducer can be reached:
  \<open>Unrecognized k\<close> is an action object whose tag \<open>k\<close> is none of the seven
  (with one of the seven tags the object would be matched by that tag's case).
\<close>

datatype Action =
    UpdateAlphaAmount string
  | UpdateAlphaAssetType Asset
  | UpdateBetaAssetType Asset
  | SwapAssetTypes number
  | PublishTransaction string
  | UpdateWalletStatus WalletStatus
  | UpdateBalance Balances
  | Unrecognized string

text \<open>The tag \<^verbatim>\<open>action.type\<close> the reducer switches on.\<close>

fun action_type :: "Action \<Rightarrow> string" where
  "action_type (UpdateAlphaAmount _) = ''UpdateAlphaAmount''"
| "action_type (UpdateAlphaAssetType _) = ''UpdateAlphaAssetType''"
| "action_type (UpdateBetaAssetType _) = ''UpdateBetaAssetType''"
| "action_type (SwapAssetTypes _) = ''SwapAssetTypes''"
| "action_type (PublishTransaction _) = ''PublishTransaction''"
| "action_type (UpdateWalletStatus _) = ''UpdateWalletStatus''"
| "action_type (UpdateBalance _) = ''UpdateBalance''"
| "action_type (Unrecognized k) = k"

text \<open>The \<^verbatim>\<open>case\<close> labels of the reducer's \<^verbatim>\<open>switch\<close>, in its order.\<close>

definition handled_kinds :: "string list" where
  "handled_kinds =
     [''UpdateAlphaAmount'', ''UpdateAlphaAssetType'', ''UpdateBetaAssetType'',
      ''SwapAssetTypes'', ''PublishTransaction'', ''UpdateBalance'', ''UpdateWalletStatus'']"

text \<open>The actions that one of the seven cases matches.\<close>

fun recognized :: "Action \<Rightarrow> bool" where
  "recognized (Unrecognized k) = False"
| "recognized a = True"

text \<open>\<^verbatim>\<open>throw new Error(message)\<close>\<close>

datatype error = Error string

subsection \<open>The initial state\<close>

text \<open>
  The module's \<^verbatim>\<open>initialState\<close>: its alpha leg is the first object of the store.
\<close>

definition initialStore :: Store where
  "initialStore = \<lparr>cells = (\<lambda>_. \<lparr>type = LBTC, amount = ''0.01''\<rparr>), fresh = 1\<rparr>"

definition initialState :: State where
  "initialState =
     \<lparr>alpha = 0,
      beta = USDT,
      rate = Some \<lparr>ask = 33766.30, bid = 33670.10\<rparr>,
      txId = '''',
      wallet = \<lparr>balance = Some \<lparr>usdtBalance = 0, btcBalance = 0\<rparr>,
                status = \<lparr>exists = False, loaded = False\<rparr>\<rparr>\<rparr>"

subsection \<open>The reducer\<close>

text \<open>
  \<^verbatim>\<open>export function reducer(state: State = initialState, action: Action)\<close>, case by
  case in the order of the source. It takes the store and returns the store after the
  call with the new state, or the error thrown. The default value of the parameter
  stands in only when a caller passes \<^verbatim>\<open>undefined\<close>; \<^verbatim>\<open>useReducer\<close> always
  passes the current state, and so does the model.
\<close>

fun reducer :: "Store \<Rightarrow> State \<Rightarrow> Action \<Rightarrow> error + Store \<times> State" where
  "reducer \<sigma> state (UpdateAlphaAmount v) =
     (let (\<sigma>', a) = alloc \<sigma> \<lparr>type = alpha_type \<sigma> state, amount = v\<rparr>
      in Inr (\<sigma>', state\<lparr>alpha := a\<rparr>))"
| "reducer \<sigma> state (UpdateAlphaAssetType v) =
     (let beta0 = beta state;
          beta1 = (if beta0 = v then alpha_type \<sigma> state else beta0);
          (\<sigma>', a) = alloc \<sigma> \<lparr>type = v, amount = alpha_amount \<sigma> state\<rparr>
      in Inr (\<sigma>', state\<lparr>beta := beta1, alpha := a\<rparr>))"
| "reducer \<sigma> state (UpdateBetaAssetType v) =
     (let alpha0 = alpha state;
          \<sigma>' = (if type (cells \<sigma> alpha0) = v then assign_type \<sigma> alpha0 (beta state) else \<sigma>)
      in Inr (\<sigma>', state\<lparr>alpha := alpha0, beta := v\<rparr>))"
| "reducer \<sigma> state (SwapAssetTypes betaAmount) =
     (let (\<sigma>', a) = alloc \<sigma> \<lparr>type = beta state, amount = alpha_amount \<sigma> state\<rparr>
      in Inr (\<sigma>', state\<lparr>alpha := a, beta := alpha_type \<sigma> state\<rparr>))"
| "reducer \<sigma> state (PublishTransaction v) = Inr (\<sigma>, state)"
| "reducer \<sigma> state (UpdateBalance v) =
     Inr (\<sigma>, state\<lparr>wallet := (wallet state)
                \<lparr>balance := Some \<lparr>usdtBalance = usdt v, btcBalance = btc v\<rparr>\<rparr>\<rparr>)"
| "reducer \<sigma> state (UpdateWalletStatus v) =
     Inr (\<sigma>, state\<lparr>wallet := (wallet state)
                \<lparr>status := \<lparr>exists = exists v, loaded = loaded v\<rparr>\<rparr>\<rparr>)"
| "reducer \<sigma> state (Unrecognized k) = Inl (Error ''Unknown update action received'')"

text \<open>
  \<^verbatim>\<open>const [state, dispatch] = useReducer(reducer, initialState)\<close>: every dispatch
  runs the reducer on the current state and keeps its result; an error thrown by the
  reducer ends the run.
\<close>

fun dispatch_all :: "Store \<Rightarrow> State \<Rightarrow> Action list \<Rightarrow> error + Store \<times> State" where
  "dispatch_all \<sigma> state [] = Inr (\<sigma>, state)"
| "dispatch_all \<sigma> state (a # as) =
     (case reducer \<sigma> state a of
        Inl e \<Rightarrow> Inl e
      | Inr (\<sigma>', state') \<Rightarrow> dispatch_all \<sigma>' state' as)"

subsection \<open>The amount handler of the asset selector\<close>

text \<open>
  \<^verbatim>\<open>AssetSelector.onAmountChange\<close>. The component gets \<^verbatim>\<open>dispatch\<close> as a
  prop; the effect of calling it is modelled by the list of the action objects dispatched
  so far. The handler passes the \<^verbatim>\<open>number\<close> of the input field on as the
  \<^verbatim>\<open>value\<close> of the action it builds, so the object is kept as it is written there:
  a tag and a value of the handler's own type.
\<close>

datatype 'v ActionObject = ActionObject string 'v

definition onAmountChange ::
  "AssetSide \<Rightarrow> 'v \<Rightarrow> 'v ActionObject list \<Rightarrow> error + 'v ActionObject list" where
  "onAmountChange assetSide newAmount dispatched =
     (case assetSide of
        Alpha \<Rightarrow> Inr (dispatched @ [ActionObject ''UpdateAlphaAmount'' newAmount])
      | _ \<Rightarrow> Inl (Error ''Only support editing alpha amount at the moment''))"

subsection \<open>The beta amount calculator\<close>




section \<open>Properties of the reducer\<close>

text \<open>
  C8. For every state and amount string, dispatching \<open>UpdateAlphaAmount amount\<close> returns
  a state whose \<open>alpha.amount\<close> is the given string, with \<open>alpha.type\<close> and \<open>beta\<close>
  as they were.
\<close>

theorem update_alpha_amount:
  "\<exists>\<sigma>' state'. reducer \<sigma> state (UpdateAlphaAmount v) = Inr (\<sigma>', state')
     \<and> alpha_amount \<sigma>' state' = v
     \<and> alpha_type \<sigma>' state' = alpha_type \<sigma> state
     \<and> beta state' = beta state"
  by (simp add: alloc_def alpha_amount_def alpha_type_def)

text \<open>
  C4. For every state and asset \<open>v\<close>, dispatching \<open>UpdateAlphaAssetType v\<close> returns a
  state with \<open>alpha.type = v\<close> and \<open>alpha.amount\<close> as it was; when the old \<open>beta\<close> is
  \<open>v\<close> the new \<open>beta\<close> is the old \<open>alpha.type\<close>, and otherwise \<open>beta\<close> is as it was.
\<close>

theorem update_alpha_asset_type:
  "\<exists>\<sigma>' state'. reducer \<sigma> state (UpdateAlphaAssetType v) = Inr (\<sigma>', state')
     \<and> alpha_type \<sigma>' state' = v
     \<and> alpha_amount \<sigma>' state' = alpha_amount \<sigma> state
     \<and> beta state' = (if beta state = v then alpha_type \<sigma> state else beta state)"
  by (simp add: alloc_def alpha_amount_def alpha_type_def Let_def)

text \<open>
  C5. For every state and asset \<open>v\<close>, dispatching \<open>UpdateBetaAssetType v\<close> returns a
  state with \<open>beta = v\<close>; when the old \<open>alpha.type\<close> is \<open>v\<close> the new \<open>alpha.type\<close> is
  the old \<open>beta\<close>, and otherwise \<open>alpha.type\<close> is as it was; \<open>alpha.amount\<close> is as it
  was in both cases. The old values are read before the call and the new ones in the
  returned state after it.
\<close>

theorem update_beta_asset_type:
  "\<exists>\<sigma>' state'. reducer \<sigma> state (UpdateBetaAssetType v) = Inr (\<sigma>', state')
     \<and> beta state' = v
     \<and> alpha_type \<sigma>' state'
         = (if alpha_type \<sigma> state = v then beta state else alpha_type \<sigma> state)
     \<and> alpha_amount \<sigma>' state' = alpha_amount \<sigma> state"
  by (simp add: assign_type_def alpha_amount_def alpha_type_def Let_def)

text \<open>
  C2. For every state, dispatching \<open>SwapAssetTypes\<close> returns a state whose
  \<open>alpha.type\<close> is the old \<open>beta\<close> and whose \<open>beta\<close> is the old \<open>alpha.type\<close>, with
  the string \<open>alpha.amount\<close> as it was; the result is the same whatever \<open>betaAmount\<close>
  the action carries; and dispatching it a second time gives back the first
  \<open>alpha.type\<close> and \<open>beta\<close>.
\<close>

theorem swap_asset_types:
  "\<exists>\<sigma>1 state1 \<sigma>2 state2.
     reducer \<sigma> state (SwapAssetTypes b) = Inr (\<sigma>1, state1)
     \<and> alpha_type \<sigma>1 state1 = beta state
     \<and> beta state1 = alpha_type \<sigma> state
     \<and> alpha_amount \<sigma>1 state1 = alpha_amount \<sigma> state
     \<and> reducer \<sigma> state (SwapAssetTypes b') = reducer \<sigma> state (SwapAssetTypes b)
     \<and> reducer \<sigma>1 state1 (SwapAssetTypes b'') = Inr (\<sigma>2, state2)
     \<and> alpha_type \<sigma>2 state2 = alpha_type \<sigma> state
     \<and> beta state2 = beta state
     \<and> alpha_amount \<sigma>2 state2 = alpha_amount \<sigma> state"
  by (simp add: alloc_def alpha_amount_def alpha_type_def)

subsection \<open>The two legs never hold the same asset\<close>

lemma reducer_recognized:
  "recognized a \<Longrightarrow> \<exists>\<sigma>' state'. reducer \<sigma> state a = Inr (\<sigma>', state')"
  by (cases a) (simp_all add: alloc_def Let_def)

lemma dispatch_all_recognized:
  "list_all recognized as \<Longrightarrow> \<exists>\<sigma>' state'. dispatch_all \<sigma> state as = Inr (\<sigma>', state')"
proof (induction as arbitrary: \<sigma> state)
  case Nil
  then show ?case by simp
next
  case (Cons a as)
  then have "recognized a" by simp
  then obtain \<sigma>1 state1 where step: "reducer \<sigma> state a = Inr (\<sigma>1, state1)"
    using reducer_recognized by blast
  moreover from Cons have "\<exists>\<sigma>' state'. dispatch_all \<sigma>1 state1 as = Inr (\<sigma>', state')"
    by simp
  ultimately show ?case by simp
qed

lemma reducer_distinct_legs:
  assumes "alpha_type \<sigma> state \<noteq> beta state"
    and "reducer \<sigma> state a = Inr (\<sigma>', state')"
  shows "alpha_type \<sigma>' state' \<noteq> beta state'"
  using assms
  by (cases a)
    (auto simp: alloc_def assign_type_def alpha_type_def alpha_amount_def Let_def
      split: if_splits)

lemma dispatch_all_distinct_legs:
  "alpha_type \<sigma> state \<noteq> beta state \<Longrightarrow> dispatch_all \<sigma> state as = Inr (\<sigma>', state')
     \<Longrightarrow> alpha_type \<sigma>' state' \<noteq> beta state'"
proof (induction as arbitrary: \<sigma> state)
  case Nil
  then show ?case by simp
next
  case (Cons a as)
  from Cons.prems(2) obtain \<sigma>1 state1 where
    step: "reducer \<sigma> state a = Inr (\<sigma>1, state1)" and
    rest: "dispatch_all \<sigma>1 state1 as = Inr (\<sigma>', state')"
    by (auto split: sum.splits)
  from Cons.prems(1) step have "alpha_type \<sigma>1 state1 \<noteq> beta state1"
    by (rule reducer_distinct_legs)
  then show ?case using rest by (rule Cons.IH)
qed

lemma initial_distinct_legs: "alpha_type initialStore initialState \<noteq> beta initialState"
  by (simp add: alpha_type_def initialStore_def initialState_def)

text \<open>
  C1. From the initial state (alpha L-BTC with amount 0.01, beta USDt), dispatching any
  finite sequence of actions that the reducer has a case for (the five of the table and
  the two wallet actions) returns a state, and in that state \<open>alpha.type\<close> differs
  from \<open>beta\<close>.
\<close>

theorem legs_never_collide:
  assumes "list_all recognized as"
  shows "\<exists>\<sigma>' state'. dispatch_all initialStore initialState as = Inr (\<sigma>', state')
           \<and> alpha_type \<sigma>' state' \<noteq> beta state'"
proof -
  from assms obtain \<sigma>' state' where
    run: "dispatch_all initialStore initialState as = Inr (\<sigma>', state')"
    using dispatch_all_recognized by blast
  with initial_distinct_legs have "alpha_type \<sigma>' state' \<noteq> beta state'"
    by (rule dispatch_all_distinct_legs)
  with run show ?thesis by blast
qed

theorem legs_never_collide_witness:
  "list_all recognized
     [UpdateBetaAssetType LBTC, SwapAssetTypes 336.7, UpdateAlphaAmount ''42'',
      UpdateAlphaAssetType USDT, PublishTransaction ''ab12'']
   \<and> (\<exists>\<sigma>' state'.
         dispatch_all initialStore initialState
           [UpdateBetaAssetType LBTC, SwapAssetTypes 336.7, UpdateAlphaAmount ''42'',
            UpdateAlphaAssetType USDT, PublishTransaction ''ab12''] = Inr (\<sigma>', state')
         \<and> alpha_type \<sigma>' state' \<noteq> beta state')"
  using legs_never_collide [of "[UpdateBetaAssetType LBTC, SwapAssetTypes 336.7,
       UpdateAlphaAmount ''42'', UpdateAlphaAssetType USDT, PublishTransaction ''ab12'']"]
  by simp

subsection \<open>The transaction id\<close>

lemma reducer_txId:
  "reducer \<sigma> state a = Inr (\<sigma>', state') \<Longrightarrow> txId state' = txId state"
  by (cases a) (auto simp: alloc_def Let_def)

lemma dispatch_all_txId:
  "dispatch_all \<sigma> state as = Inr (\<sigma>', state') \<Longrightarrow> txId state' = txId state"
proof (induction as arbitrary: \<sigma> state)
  case Nil
  then show ?case by simp
next
  case (Cons a as)
  from Cons.prems obtain \<sigma>1 state1 where
    step: "reducer \<sigma> state a = Inr (\<sigma>1, state1)" and
    rest: "dispatch_all \<sigma>1 state1 as = Inr (\<sigma>', state')"
    by (auto split: sum.splits)
  from rest have "txId state' = txId state1" by (rule Cons.IH)
  also from step have "txId state1 = txId state" by (rule reducer_txId)
  finally show ?case .
qed

text \<open>
  C10. For every state, \<open>PublishTransaction\<close> returns the store and a state equal to its
  input, so the transaction id it carries is not recorded; \<open>UpdateWalletStatus\<close> and
  \<open>UpdateBalance\<close> leave the store, the alpha leg and \<open>beta\<close> as they were; no action
  changes \<open>txId\<close>; and in every state that a sequence of dispatches reaches from the
  initial state \<open>txId\<close> is the empty string.
\<close>

theorem txId_never_written:
  "reducer \<sigma> state (PublishTransaction t) = Inr (\<sigma>, state)
   \<and> (\<exists>state'. reducer \<sigma> state (UpdateWalletStatus w) = Inr (\<sigma>, state')
         \<and> alpha state' = alpha state \<and> beta state' = beta state)
   \<and> (\<exists>state'. reducer \<sigma> state (UpdateBalance b) = Inr (\<sigma>, state')
         \<and> alpha state' = alpha state \<and> beta state' = beta state)
   \<and> (\<forall>\<sigma>' state'. reducer \<sigma> state a = Inr (\<sigma>', state') \<longrightarrow> txId state' = txId state)
   \<and> (\<forall>\<sigma>' state'. dispatch_all initialStore initialState as = Inr (\<sigma>', state')
         \<longrightarrow> txId state' = '''')"
proof -
  have "txId initialState = ''''"
    by (simp add: initialState_def)
  then have "\<forall>\<sigma>' state'. dispatch_all initialStore initialState as = Inr (\<sigma>', state')
         \<longrightarrow> txId state' = ''''"
    using dispatch_all_txId by fastforce
  moreover
  have "\<forall>\<sigma>' state'. reducer \<sigma> state a = Inr (\<sigma>', state') \<longrightarrow> txId state' = txId state"
    using reducer_txId by blast
  ultimately show ?thesis by simp
qed

theorem txId_never_written_witness:
  "reducer initialStore initialState (PublishTransaction ''ab12'')
     = Inr (initialStore, initialState)
   \<and> (\<exists>\<sigma>' state'.
         reducer initialStore initialState (UpdateAlphaAmount ''42'') = Inr (\<sigma>', state')
         \<and> txId state' = txId initialState)
   \<and> (\<exists>\<sigma>' state'.
         dispatch_all initialStore initialState
           [UpdateAlphaAmount ''42'', PublishTransaction ''ab12'', UpdateBetaAssetType LBTC]
           = Inr (\<sigma>', state')
         \<and> txId state' = '''')"
  using txId_never_written [of initialStore initialState "''ab12''"
      "\<lparr>exists = True, loaded = False\<rparr>" "\<lparr>usdt = 1, btc = 2\<rparr>" "UpdateAlphaAmount ''42''"
      "[UpdateAlphaAmount ''42'', PublishTransaction ''ab12'', UpdateBetaAssetType LBTC]"]
  by (simp add: alloc_def Let_def)

subsection \<open>Unknown actions\<close>

text \<open>
  C6. For every state, dispatching an action whose kind is none of the kinds the reducer
  has a case for throws: the reducer returns the error and no state.
\<close>

theorem unknown_action_throws:
  "action_type a \<notin> set handled_kinds \<Longrightarrow>
     reducer \<sigma> state a = Inl (Error ''Unknown update action received'')"
  by (cases a) (simp_all add: handled_kinds_def)

theorem unknown_action_throws_witness:
  "action_type (Unrecognized ''Reset'') \<notin> set handled_kinds
   \<and> reducer initialStore initialState (Unrecognized ''Reset'')
       = Inl (Error ''Unknown update action received'')"
  using unknown_action_throws [of "Unrecognized ''Reset''" initialStore initialState]
  by (simp add: handled_kinds_def)

subsection \<open>Writes to the input state\<close>

text \<open>
  Every case but \<open>UpdateBetaAssetType\<close> leaves the alpha leg of its input state as it
  found it: the new leg is a new object.
\<close>

lemma reducer_keeps_objects:
  assumes "alpha state < fresh \<sigma>" and "\<forall>v. a \<noteq> UpdateBetaAssetType v"
    and "reducer \<sigma> state a = Inr (\<sigma>', state')"
  shows "cells \<sigma>' (alpha state) = cells \<sigma> (alpha state)"
  using assms by (cases a) (auto simp: alloc_def Let_def)

text \<open>
  C3. The reducer is pure: a call leaves every field of its input state, \<open>alpha.type\<close>
  and \<open>alpha.amount\<close> among them, as it was. The code does not do that: on the initial
  state, whose \<open>alpha.type\<close> is L-BTC, the call with \<open>UpdateBetaAssetType LBTC\<close>
  assigns to the alpha leg that the input state holds, and after the call the
  \<open>alpha.type\<close> of the input state is USDt.
\<close>

theorem reducer_writes_input_state:
  "alpha_type initialStore initialState = LBTC
   \<and> (case reducer initialStore initialState (UpdateBetaAssetType LBTC) of
        Inl e \<Rightarrow> False
      | Inr (\<sigma>', state') \<Rightarrow> alpha_type \<sigma>' initialState = USDT)"
  by (simp add: initialStore_def initialState_def assign_type_def alpha_type_def)

section \<open>The amount handler\<close>

text \<open>
  C9. For every amount, the amount handler of a selector whose side is not Alpha throws
  and dispatches nothing: only the alpha amount can be edited.
\<close>

theorem beta_amount_not_editable:
  "assetSide \<noteq> Alpha \<Longrightarrow>
     onAmountChange assetSide newAmount dispatched
       = Inl (Error ''Only support editing alpha amount at the moment'')"
  by (cases assetSide) (simp_all add: onAmountChange_def)

theorem beta_amount_not_editable_witness:
  "Beta \<noteq> Alpha
   \<and> onAmountChange Beta (0.5::real) []
       = Inl (Error ''Only support editing alpha amount at the moment'')"
  using beta_amount_not_editable [of Beta "0.5::real" "[]"]
  by simp

section \<open>The beta amount\<close>




end
